theory Spec2Isabelle
  imports Main "HOL-Library.Word"
begin

section \<open>The cube model of CubeModel.hpp\<close>

text \<open>
  A shallow embedding of the class \<open>CubeModel\<close>: the two constructors, the colour
  queries \<open>getEdgeColors\<close>, \<open>getCornerColors\<close>, \<open>getColor\<close>, \<open>getFaceColors\<close>, and
  the predicates \<open>isSolved\<close> and \<open>operator==\<close>.

  All enum classes of the header have the underlying type \<open>uint8_t\<close>.
  \<^item> \<open>COLOR\<close> values are only ever written as enumerators: a datatype.
  \<^item> \<open>EDGE\<close> and \<open>CORNER\<close> values are passed as enumerators (slot arguments), and the
    stored byte \<open>index\<close> is cast to them only as the scrutinee of a \<open>switch\<close>: datatypes,
    with the two casts written out (\<open>EDGE_val\<close>, \<open>EDGE_of_u8\<close>).
  \<^item> \<open>DIR\<close> and \<open>FACE\<close> values are produced by casting raw frame bytes
    (\<open>(DIR)data[i+8]\<close>, \<open>(FACE)data[32]\<close>), so every byte is a value of these types:
    they are bytes, with the enumerators as named constants.
\<close>

type_synonym u8 = "8 word"

datatype COLOR = BLUE | YELLOW | ORANGE | WHITE | RED | GREEN

text \<open>The enumerator \<open>_BR\<close> of the header is written \<open>BR\<close> here.\<close>

datatype EDGE = UB | UL | UF | UR | BL | FL | FR | BR | DB | DL | DF | DR

datatype CORNER = ULB | ULF | URF | URB | DLB | DLF | DRF | DRB

type_synonym FACE = u8

definition UP :: FACE where "UP = 0"
definition LEFT :: FACE where "LEFT = 1"
definition FRONT :: FACE where "FRONT = 2"
definition RIGHT :: FACE where "RIGHT = 3"
definition BACK :: FACE where "BACK = 4"
definition DOWN :: FACE where "DOWN = 5"
definition NONE :: FACE where "NONE = 6"

type_synonym DIR = u8

definition ORIENTED :: DIR where "ORIENTED = 3"
definition FLIPPED :: DIR where "FLIPPED = 4"
definition ROTATED :: DIR where "ROTATED = 2"
definition ROTATED_TWICE :: DIR where "ROTATED_TWICE = 1"

text \<open>The cast \<open>(uint8_t)edge\<close>, used as an array position.\<close>

fun EDGE_val :: "EDGE \<Rightarrow> nat" where
  "EDGE_val UB = 0"
| "EDGE_val UL = 1"
| "EDGE_val UF = 2"
| "EDGE_val UR = 3"
| "EDGE_val BL = 4"
| "EDGE_val FL = 5"
| "EDGE_val FR = 6"
| "EDGE_val BR = 7"
| "EDGE_val DB = 8"
| "EDGE_val DL = 9"
| "EDGE_val DF = 10"
| "EDGE_val DR = 11"

fun CORNER_val :: "CORNER \<Rightarrow> nat" where
  "CORNER_val ULB = 0"
| "CORNER_val ULF = 1"
| "CORNER_val URF = 2"
| "CORNER_val URB = 3"
| "CORNER_val DLB = 4"
| "CORNER_val DLF = 5"
| "CORNER_val DRF = 6"
| "CORNER_val DRB = 7"

text \<open>
  The casts \<open>(EDGE)edge_cubie.index\<close> and \<open>(CORNER)corner_cubie.index\<close> as a \<open>switch\<close>
  sees them: \<open>None\<close> when the byte matches no case label.
\<close>

definition EDGE_of_u8 :: "u8 \<Rightarrow> EDGE option" where
  "EDGE_of_u8 v =
     (if v = 0 then Some UB else if v = 1 then Some UL else if v = 2 then Some UF
      else if v = 3 then Some UR else if v = 4 then Some BL else if v = 5 then Some FL
      else if v = 6 then Some FR else if v = 7 then Some BR else if v = 8 then Some DB
      else if v = 9 then Some DL else if v = 10 then Some DF else if v = 11 then Some DR
      else None)"

definition CORNER_of_u8 :: "u8 \<Rightarrow> CORNER option" where
  "CORNER_of_u8 v =
     (if v = 0 then Some ULB else if v = 1 then Some ULF else if v = 2 then Some URF
      else if v = 3 then Some URB else if v = 4 then Some DLB else if v = 5 then Some DLF
      else if v = 6 then Some DRF else if v = 7 then Some DRB else None)"

record Cubie =
  index :: u8
  orientation :: DIR

text \<open>
  The three \<open>std::array\<close> members are lists; \<open>wf_CubeModel\<close> fixes their lengths
  (12, 8 and 6), which the C++ types fix.
\<close>

record CubeModel =
  edges :: "Cubie list"
  corners :: "Cubie list"
  centers :: "COLOR list"
  lastTurnedFace :: FACE
  lastTurnedDir :: u8
  turnedFace :: FACE
  turnedDir :: u8

definition wf_CubeModel :: "CubeModel \<Rightarrow> bool" where
  "wf_CubeModel s =
     (length (edges s) = 12 \<and> length (corners s) = 8 \<and> length (centers s) = 6)"

subsection \<open>Constructors\<close>

text \<open>
  The six assignments \<open>centers[uint8_t(FACE::UP)] = COLOR::GREEN\<close> ... of both
  constructors, in array order UP, LEFT, FRONT, RIGHT, BACK, DOWN.
\<close>

definition fixed_centers :: "COLOR list" where
  "fixed_centers = [GREEN, RED, WHITE, ORANGE, YELLOW, BLUE]"

text \<open>\<open>CubeModel::CubeModel()\<close>.\<close>

definition CubeModel_default :: CubeModel where
  "CubeModel_default =
     \<lparr> edges = map (\<lambda>i. \<lparr> index = of_nat i, orientation = ORIENTED \<rparr>) [0..<12],
       corners = map (\<lambda>i. \<lparr> index = of_nat i, orientation = ORIENTED \<rparr>) [0..<8],
       centers = fixed_centers,
       lastTurnedFace = NONE, lastTurnedDir = 0,
       turnedFace = NONE, turnedDir = 0 \<rparr>"

text \<open>\<open>this->edges[(uint8_t)e].orientation = DIR::FLIPPED\<close>.\<close>

definition set_flipped :: "EDGE \<Rightarrow> Cubie list \<Rightarrow> Cubie list" where
  "set_flipped e es = es[EDGE_val e := (es ! EDGE_val e)\<lparr> orientation := FLIPPED \<rparr>]"

text \<open>
  \<open>CubeModel::CubeModel(const uint8_t *data)\<close>. The frame is the list of the 36 bytes
  behind the pointer. \<open>data[i] - 1\<close> is computed in \<open>int\<close> and stored into a
  \<open>uint8_t\<close>, so it wraps: byte 0 gives index 255, as the subtraction on \<open>8 word\<close> does.
  The constructor has no failure path: it returns a state for every frame.
\<close>

definition CubeModel_decode :: "u8 list \<Rightarrow> CubeModel" where
  "CubeModel_decode data =
     (let cs = map (\<lambda>i. \<lparr> index = data ! i - 1, orientation = data ! (i + 8) \<rparr>) [0..<8];
          es0 = map (\<lambda>i. \<lparr> index = data ! (i + 16) - 1, orientation = ORIENTED \<rparr>) [0..<12];
          es1 = (if (data ! 28 = 8 \<and> data ! 29 = 9 \<and> data ! 30 = 8)
                    \<or> (data ! 28 = 0x0A \<and> data ! 29 = 0x0F \<and> data ! 30 = 0x0A)
                 then set_flipped DB (set_flipped BR (set_flipped BL (set_flipped UB es0)))
                 else es0);
          es2 = (if (data ! 28 = 2 \<and> data ! 29 = 6 \<and> data ! 30 = 2)
                    \<or> (data ! 28 = 0x0A \<and> data ! 29 = 0x0F \<and> data ! 30 = 0x0A)
                 then set_flipped DF (set_flipped FR (set_flipped FL (set_flipped UF es1)))
                 else es1)
      in \<lparr> edges = es2,
           corners = cs,
           centers = fixed_centers,
           lastTurnedFace = data ! 34,
           lastTurnedDir = (if data ! 35 = 1 then 0 else 1),
           turnedFace = data ! 32,
           turnedDir = (if data ! 33 = 1 then 0 else 1) \<rparr>)"

text \<open>
  The solved frame of the header's example: corners 1..8, orientations all 3, edges 1..C,
  flip bytes and the reserved byte 0, move bytes 5 3 5 1.
\<close>

definition solved_frame :: "u8 list" where
  "solved_frame =
     [1, 2, 3, 4, 5, 6, 7, 8,
      3, 3, 3, 3, 3, 3, 3, 3,
      1, 2, 3, 4, 5, 6, 7, 8, 9, 10, 11, 12,
      0, 0, 0, 0,
      5, 3, 5, 1]"

subsection \<open>isSolved and operator==\<close>

text \<open>
  The loop of \<open>isSolved\<close>, from counter \<open>i\<close> on. The comparison \<open>index != i\<close> is on
  the values of two \<open>uint8_t\<close>.
\<close>

function isSolved_from :: "CubeModel \<Rightarrow> nat \<Rightarrow> bool" where
  "isSolved_from s i =
     (if i < 12 then
        (if unat (index (edges s ! i)) \<noteq> i \<or> orientation (edges s ! i) \<noteq> ORIENTED
         then False
         else if i < 6 \<and> (unat (index (corners s ! i)) \<noteq> i
                           \<or> orientation (corners s ! i) \<noteq> ORIENTED)
         then False
         else isSolved_from s (Suc i))
      else True)"
  by pat_completeness auto
termination
  by (relation "measure (\<lambda>(s, i). 12 - i)") auto

definition isSolved :: "CubeModel \<Rightarrow> bool" where
  "isSolved s = isSolved_from s 0"

text \<open>The loop of \<open>operator==\<close>, from counter \<open>i\<close> on.\<close>

function equal_from :: "CubeModel \<Rightarrow> CubeModel \<Rightarrow> nat \<Rightarrow> bool" where
  "equal_from s other i =
     (if i < 12 then
        (if index (edges s ! i) \<noteq> index (edges other ! i)
            \<or> orientation (edges s ! i) \<noteq> orientation (edges other ! i)
         then False
         else if i < 8 \<and> (index (corners s ! i) \<noteq> index (corners other ! i)
                           \<or> orientation (corners s ! i) \<noteq> orientation (corners other ! i))
         then False
         else if i < 6 \<and> centers s ! i \<noteq> centers other ! i
         then False
         else equal_from s other (Suc i))
      else True)"
  by pat_completeness auto
termination
  by (relation "measure (\<lambda>(s, other, i). 12 - i)") auto

definition CubeModel_equal :: "CubeModel \<Rightarrow> CubeModel \<Rightarrow> bool" where
  "CubeModel_equal s other = equal_from s other 0"

subsection \<open>Colour queries\<close>

text \<open>
  A local \<open>array<COLOR, n> result\<close> starts uninitialised and is filled by the \<open>switch\<close>
  on the stored index; no case label matches an index outside the enumeration, and
  \<open>result\<close> then stays as it was. A cell is therefore a \<open>COLOR option\<close>: \<open>None\<close> is a
  cell whose value the source does not determine.

  The slot reads \<open>edges.at((uint8_t)edge)\<close> and \<open>corners.at((uint8_t)corner)\<close> are
  bounds-checked; an enumerator is always within the 12 and 8 elements of the arrays
  (\<open>wf_CubeModel\<close>), so the check never fails and the read is \<open>!\<close>.
\<close>

text \<open>The case bodies of the \<open>switch\<close> of \<open>getEdgeColors\<close>: \<open>(result[0], result[1])\<close>.\<close>

fun edge_pair :: "EDGE \<Rightarrow> COLOR \<times> COLOR" where
  "edge_pair UB = (GREEN, YELLOW)"
| "edge_pair UL = (GREEN, RED)"
| "edge_pair UF = (GREEN, WHITE)"
| "edge_pair UR = (GREEN, ORANGE)"
| "edge_pair BL = (YELLOW, RED)"
| "edge_pair FL = (WHITE, RED)"
| "edge_pair FR = (WHITE, ORANGE)"
| "edge_pair BR = (YELLOW, ORANGE)"
| "edge_pair DB = (BLUE, YELLOW)"
| "edge_pair DL = (BLUE, RED)"
| "edge_pair DF = (BLUE, WHITE)"
| "edge_pair DR = (BLUE, ORANGE)"

definition getEdgeColors :: "CubeModel \<Rightarrow> EDGE \<Rightarrow> COLOR option list" where
  "getEdgeColors s edge =
     (let edge_cubie = edges s ! EDGE_val edge;
          result = (case EDGE_of_u8 (index edge_cubie) of
                      None \<Rightarrow> [None, None]
                    | Some e \<Rightarrow> [Some (fst (edge_pair e)), Some (snd (edge_pair e))])
      in if orientation edge_cubie = FLIPPED then [result ! 1, result ! 0] else result)"

text \<open>
  The first half of \<open>getCornerColors\<close>: the positions \<open>(i0, i1, i2)\<close>. The sum
  \<open>corner_cubie.index + (uint8_t)corner\<close> is computed in \<open>int\<close> and does not wrap.
\<close>

definition corner_positions :: "CubeModel \<Rightarrow> CORNER \<Rightarrow> nat \<times> nat \<times> nat" where
  "corner_positions s corner =
     (let corner_cubie = corners s ! CORNER_val corner;
          odd_sum = ((unat (index corner_cubie) + CORNER_val corner) mod 2 = 1)
      in if orientation corner_cubie = ORIENTED then
           (if odd_sum then (0, 2, 1) else (0, 1, 2))
         else if orientation corner_cubie = ROTATED then
           (if odd_sum then (1, 0, 2) else (2, 0, 1))
         else
           (if odd_sum then (2, 1, 0)
            else if \<not> isSolved s then (2, 1, 0)
            else (1, 2, 0)))"

text \<open>The case bodies of the \<open>switch\<close> of \<open>getCornerColors\<close>: the colours written to
  \<open>result[i0]\<close>, \<open>result[i1]\<close>, \<open>result[i2]\<close>.\<close>

fun corner_triple :: "CORNER \<Rightarrow> COLOR \<times> COLOR \<times> COLOR" where
  "corner_triple ULB = (GREEN, RED, YELLOW)"
| "corner_triple ULF = (GREEN, RED, WHITE)"
| "corner_triple URF = (GREEN, ORANGE, WHITE)"
| "corner_triple URB = (GREEN, ORANGE, YELLOW)"
| "corner_triple DLB = (BLUE, RED, YELLOW)"
| "corner_triple DLF = (BLUE, RED, WHITE)"
| "corner_triple DRF = (BLUE, ORANGE, WHITE)"
| "corner_triple DRB = (BLUE, ORANGE, YELLOW)"

definition getCornerColors :: "CubeModel \<Rightarrow> CORNER \<Rightarrow> COLOR option list" where
  "getCornerColors s corner =
     (let corner_cubie = corners s ! CORNER_val corner;
          result = [None, None, None]
      in case corner_positions s corner of (i0, i1, i2) \<Rightarrow>
           (case CORNER_of_u8 (index corner_cubie) of
              None \<Rightarrow> result
            | Some p \<Rightarrow>
                (case corner_triple p of (c0, c1, c2) \<Rightarrow>
                   result[i0 := Some c0, i1 := Some c1, i2 := Some c2])))"

text \<open>
  \<open>getColor\<close>. The centre read \<open>centers[(uint8_t)face]\<close> is unchecked: past the six
  elements the source does not determine the value (\<open>None\<close>).
\<close>

definition getColor :: "CubeModel \<Rightarrow> FACE \<Rightarrow> u8 \<Rightarrow> u8 \<Rightarrow> COLOR option" where
  "getColor s face row col =
     (if row = 1 \<and> col = 1 then
        (if unat face < 6 then Some (centers s ! unat face) else None)
      else if face = UP then
        (if row = 0 then
           (if col = 0 then getCornerColors s ULB ! 0
            else if col = 1 then getEdgeColors s UB ! 0
            else getCornerColors s URB ! 0)
         else if row = 1 then
           (if col = 0 then getEdgeColors s UL ! 0
            else getEdgeColors s UR ! 0)
         else
           (if col = 0 then getCornerColors s ULF ! 0
            else if col = 1 then getEdgeColors s UF ! 0
            else getCornerColors s URF ! 0))
      else if face = LEFT then
        (if row = 0 then
           (if col = 0 then getCornerColors s ULB ! 1
            else if col = 1 then getEdgeColors s UL ! 1
            else getCornerColors s ULF ! 1)
         else if row = 1 then
           (if col = 0 then getEdgeColors s BL ! 1
            else getEdgeColors s FL ! 1)
         else
           (if col = 0 then getCornerColors s DLB ! 1
            else if col = 1 then getEdgeColors s DL ! 1
            else getCornerColors s DLF ! 1))
      else if face = FRONT then
        (if row = 0 then
           (if col = 0 then getCornerColors s ULF ! 2
            else if col = 1 then getEdgeColors s UF ! 1
            else getCornerColors s URF ! 2)
         else if row = 1 then
           (if col = 0 then getEdgeColors s FL ! 0
            else getEdgeColors s FR ! 0)
         else
           (if col = 0 then getCornerColors s DLF ! 2
            else if col = 1 then getEdgeColors s DF ! 1
            else getCornerColors s DRF ! 2))
      else if face = RIGHT then
        (if row = 0 then
           (if col = 0 then getCornerColors s URF ! 1
            else if col = 1 then getEdgeColors s UR ! 1
            else getCornerColors s URF ! 1)
         else if row = 1 then
           (if col = 0 then getEdgeColors s FR ! 1
            else getEdgeColors s BR ! 1)
         else
           (if col = 0 then getCornerColors s DRF ! 1
            else if col = 1 then getEdgeColors s DR ! 1
            else getCornerColors s DRB ! 1))
      else if face = BACK then
        (if row = 0 then
           (if col = 0 then getCornerColors s URB ! 2
            else if col = 1 then getEdgeColors s UB ! 1
            else getCornerColors s ULB ! 2)
         else if row = 1 then
           (if col = 0 then getEdgeColors s BR ! 0
            else getEdgeColors s BL ! 0)
         else
           (if col = 0 then getCornerColors s DRB ! 2
            else if col = 1 then getEdgeColors s DB ! 1
            else getCornerColors s DLB ! 2))
      else if face = DOWN then
        (if row = 0 then
           (if col = 0 then getCornerColors s DLF ! 0
            else if col = 1 then getEdgeColors s DF ! 0
            else getCornerColors s DRF ! 0)
         else if row = 1 then
           (if col = 0 then getEdgeColors s DL ! 0
            else getEdgeColors s DR ! 0)
         else
           (if col = 0 then getCornerColors s DLB ! 0
            else if col = 1 then getEdgeColors s DB ! 0
            else getCornerColors s DRB ! 0))
      else Some WHITE)"

text \<open>\<open>getFaceColors\<close>: rows 0, 1, 2 of columns 0, 1, 2.\<close>

definition getFaceColors :: "CubeModel \<Rightarrow> FACE \<Rightarrow> COLOR option list list" where
  "getFaceColors s face =
     map (\<lambda>row. map (\<lambda>col. getColor s face (of_nat row) (of_nat col)) [0..<3]) [0..<3]"

subsection \<open>The documented face index\<close>

text \<open>
  The header comment documents the face bytes of a frame as "Face index: 1 - Blue,
  2 - Yellow, 3 - Orange, 4 - White, 5 - Red, 6 - Green". \<open>spec_face_of_index\<close> follows
  these words, taking each colour to the face whose fixed centre has it
  (\<open>fixed_centers\<close>). No function of the source computes it; it is stated for
  comparison with what the decoding constructor stores.
\<close>

definition spec_face_of_index :: "u8 \<Rightarrow> FACE option" where
  "spec_face_of_index v =
     (if v = 1 then Some DOWN else if v = 2 then Some BACK else if v = 3 then Some RIGHT
      else if v = 4 then Some FRONT else if v = 5 then Some LEFT else if v = 6 then Some UP
      else None)"

subsection \<open>Sample frames\<close>

text \<open>The solved frame with the bytes \<open>a b c\<close> at offsets 28, 29, 30.\<close>

definition flip_frame :: "u8 \<Rightarrow> u8 \<Rightarrow> u8 \<Rightarrow> u8 list" where
  "flip_frame a b c = solved_frame[28 := a, 29 := b, 30 := c]"

text \<open>
  The solved frame with corner slot DRF twisted (orientation byte 14 set to 1), and
  the same with corner slot ULB twisted as well (orientation byte 8 set to 1).
\<close>

definition twisted_DRF_frame :: "u8 list" where
  "twisted_DRF_frame = solved_frame[14 := 1]"

definition twisted_ULB_DRF_frame :: "u8 list" where
  "twisted_ULB_DRF_frame = solved_frame[8 := 1, 14 := 1]"

text \<open>
  A frame with the pieces of edge slots UB and BL exchanged (bytes 16 and 20) and the
  flip bytes 8 9 8.
\<close>

definition swapped_edges_frame :: "u8 list" where
  "swapped_edges_frame = solved_frame[16 := 5, 20 := 1, 28 := 8, 29 := 9, 30 := 8]"

section \<open>Properties\<close>

lemmas FACE_defs = UP_def LEFT_def FRONT_def RIGHT_def BACK_def DOWN_def NONE_def

lemmas DIR_defs = ORIENTED_def FLIPPED_def ROTATED_def ROTATED_TWICE_def

declare isSolved_from.simps [simp del]
declare equal_from.simps [simp del]

subsection \<open>Unrolled counters\<close>

lemma upt_12: "[0..<12] = [0, 1, 2, 3, 4, 5, 6, 7, 8, 9, 10, 11]"
  by code_simp

lemma range_split:
  "i < (12::nat) \<Longrightarrow>
     (\<forall>j. i \<le> j \<and> j < 12 \<longrightarrow> P j) \<longleftrightarrow> (P i \<and> (\<forall>j. Suc i \<le> j \<and> j < 12 \<longrightarrow> P j))"
proof (intro iffI conjI allI impI)
  assume "i < 12" and h: "\<forall>j. i \<le> j \<and> j < 12 \<longrightarrow> P j"
  then show "P i" by simp
next
  fix j
  assume h: "\<forall>j. i \<le> j \<and> j < 12 \<longrightarrow> P j" and "Suc i \<le> j \<and> j < 12"
  then have "i \<le> j \<and> j < 12" by simp
  with h show "P j" by blast
next
  fix j
  assume a: "P i \<and> (\<forall>j. Suc i \<le> j \<and> j < 12 \<longrightarrow> P j)" and b: "i \<le> j \<and> j < 12"
  show "P j"
  proof (cases "j = i")
    case True
    with a show ?thesis by simp
  next
    case False
    with b have "Suc i \<le> j \<and> j < 12" by simp
    with a show ?thesis by blast
  qed
qed

lemma all_less_12:
  "(\<forall>i<12::nat. P i) \<longleftrightarrow>
     P 0 \<and> P 1 \<and> P 2 \<and> P 3 \<and> P 4 \<and> P 5 \<and> P 6 \<and> P 7 \<and> P 8 \<and> P 9 \<and> P 10 \<and> P 11"
proof -
  have "(\<forall>i<12::nat. P i) \<longleftrightarrow> (\<forall>i\<in>set [0..<12]. P i)"
    by (simp add: Ball_def)
  also have "\<dots> \<longleftrightarrow> list_all P [0, 1, 2, 3, 4, 5, 6, 7, 8, 9, 10, 11]"
    by (simp only: upt_12 list_all_iff)
  finally show ?thesis by simp
qed

lemma upt_6: "[0..<6] = [0, 1, 2, 3, 4, 5]"
  by code_simp

lemma all_less_6:
  "(\<forall>i<6::nat. P i) \<longleftrightarrow> P 0 \<and> P 1 \<and> P 2 \<and> P 3 \<and> P 4 \<and> P 5"
proof -
  have "(\<forall>i<6::nat. P i) \<longleftrightarrow> (\<forall>i\<in>set [0..<6]. P i)"
    by (simp add: Ball_def)
  also have "\<dots> \<longleftrightarrow> list_all P [0, 1, 2, 3, 4, 5]"
    by (simp only: upt_6 list_all_iff)
  finally show ?thesis by simp
qed

subsection \<open>The solved frame\<close>

text \<open>
  C1. Decoding the solved frame (36 bytes) gives a state on which \<open>isSolved\<close> is true,
  and \<open>getFaceColors\<close> returns, for each of the six faces, the 3 by 3 grid whose nine
  cells are that face's centre colour: GREEN for UP, RED for LEFT, WHITE for FRONT,
  ORANGE for RIGHT, YELLOW for BACK, BLUE for DOWN, the colours stored in \<open>centers\<close>.
\<close>

theorem solved_frame_decodes_solved_uniform:
  "length solved_frame = 36 \<and>
   isSolved (CubeModel_decode solved_frame) \<and>
   centers (CubeModel_decode solved_frame) = [GREEN, RED, WHITE, ORANGE, YELLOW, BLUE] \<and>
   getFaceColors (CubeModel_decode solved_frame) UP = replicate 3 (replicate 3 (Some GREEN)) \<and>
   getFaceColors (CubeModel_decode solved_frame) LEFT = replicate 3 (replicate 3 (Some RED)) \<and>
   getFaceColors (CubeModel_decode solved_frame) FRONT = replicate 3 (replicate 3 (Some WHITE)) \<and>
   getFaceColors (CubeModel_decode solved_frame) RIGHT = replicate 3 (replicate 3 (Some ORANGE)) \<and>
   getFaceColors (CubeModel_decode solved_frame) BACK = replicate 3 (replicate 3 (Some YELLOW)) \<and>
   getFaceColors (CubeModel_decode solved_frame) DOWN = replicate 3 (replicate 3 (Some BLUE))"
  by code_simp

text \<open>
  C7. The state of the default constructor and the state decoded from the solved frame
  are equal under \<open>operator==\<close>, in both argument orders, although their move metadata
  differ (\<open>operator==\<close> does not read it).
\<close>

theorem default_equals_decoded_solved_frame:
  "CubeModel_equal CubeModel_default (CubeModel_decode solved_frame) \<and>
   CubeModel_equal (CubeModel_decode solved_frame) CubeModel_default \<and>
   turnedFace CubeModel_default \<noteq> turnedFace (CubeModel_decode solved_frame)"
  by code_simp

subsection \<open>The decoding constructor\<close>

lemma CubeModel_decode_edges:
  "edges (CubeModel_decode data) =
     (let es0 = map (\<lambda>i. \<lparr> index = data ! (i + 16) - 1, orientation = ORIENTED \<rparr>) [0..<12];
          es1 = (if (data ! 28 = 8 \<and> data ! 29 = 9 \<and> data ! 30 = 8)
                    \<or> (data ! 28 = 0x0A \<and> data ! 29 = 0x0F \<and> data ! 30 = 0x0A)
                 then set_flipped DB (set_flipped BR (set_flipped BL (set_flipped UB es0)))
                 else es0)
      in (if (data ! 28 = 2 \<and> data ! 29 = 6 \<and> data ! 30 = 2)
                    \<or> (data ! 28 = 0x0A \<and> data ! 29 = 0x0F \<and> data ! 30 = 0x0A)
                 then set_flipped DF (set_flipped FR (set_flipped FL (set_flipped UF es1)))
                 else es1))"
  by (simp add: CubeModel_decode_def Let_def)

lemma edges_pattern_A:
  assumes "data ! 28 = 8" "data ! 29 = 9" "data ! 30 = 8"
  shows "orientation (edges (CubeModel_decode data) ! EDGE_val e) =
           (if e \<in> {UB, BL, BR, DB} then FLIPPED else ORIENTED)"
  using assms by (cases e) (simp_all add: CubeModel_decode_edges set_flipped_def upt_12)

lemma edges_pattern_B:
  assumes "data ! 28 = 2" "data ! 29 = 6" "data ! 30 = 2"
  shows "orientation (edges (CubeModel_decode data) ! EDGE_val e) =
           (if e \<in> {UF, FL, FR, DF} then FLIPPED else ORIENTED)"
  using assms by (cases e) (simp_all add: CubeModel_decode_edges set_flipped_def upt_12)

lemma edges_pattern_C:
  assumes "data ! 28 = 0x0A" "data ! 29 = 0x0F" "data ! 30 = 0x0A"
  shows "orientation (edges (CubeModel_decode data) ! EDGE_val e) =
           (if e \<in> {UB, BL, BR, DB, UF, FL, FR, DF} then FLIPPED else ORIENTED)"
  using assms by (cases e) (simp_all add: CubeModel_decode_edges set_flipped_def upt_12)

lemma edges_no_pattern:
  assumes "\<not> (data ! 28 = 8 \<and> data ! 29 = 9 \<and> data ! 30 = 8)"
    and "\<not> (data ! 28 = 2 \<and> data ! 29 = 6 \<and> data ! 30 = 2)"
    and "\<not> (data ! 28 = 0x0A \<and> data ! 29 = 0x0F \<and> data ! 30 = 0x0A)"
  shows "orientation (edges (CubeModel_decode data) ! EDGE_val e) = ORIENTED"
proof -
  from assms have "edges (CubeModel_decode data) =
      map (\<lambda>i. \<lparr> index = data ! (i + 16) - 1, orientation = ORIENTED \<rparr>) [0..<12]"
    unfolding CubeModel_decode_edges Let_def by (simp only: if_False simp_thms)
  then show ?thesis by (cases e) (simp_all add: upt_12)
qed

lemma wf_CubeModel_decode: "wf_CubeModel (CubeModel_decode data)"
  by (simp add: wf_CubeModel_def CubeModel_decode_def Let_def set_flipped_def fixed_centers_def)

text \<open>
  C2. For a frame of 36 bytes, the bytes at offsets 28, 29, 30 decide the edge
  orientations: 8 9 8 makes exactly the slots UB, BL, BR, DB FLIPPED; 2 6 2 makes exactly
  the slots UF, FL, FR, DF FLIPPED; 0x0A 0x0F 0x0A makes exactly these eight slots
  FLIPPED; every other slot is ORIENTED in each case.
\<close>

theorem flip_triple_sets_edge_orientations:
  assumes "length data = 36"
  shows "(data ! 28 = 8 \<and> data ! 29 = 9 \<and> data ! 30 = 8 \<longrightarrow>
            (\<forall>e. orientation (edges (CubeModel_decode data) ! EDGE_val e) =
                   (if e \<in> {UB, BL, BR, DB} then FLIPPED else ORIENTED))) \<and>
         (data ! 28 = 2 \<and> data ! 29 = 6 \<and> data ! 30 = 2 \<longrightarrow>
            (\<forall>e. orientation (edges (CubeModel_decode data) ! EDGE_val e) =
                   (if e \<in> {UF, FL, FR, DF} then FLIPPED else ORIENTED))) \<and>
         (data ! 28 = 0x0A \<and> data ! 29 = 0x0F \<and> data ! 30 = 0x0A \<longrightarrow>
            (\<forall>e. orientation (edges (CubeModel_decode data) ! EDGE_val e) =
                   (if e \<in> {UB, BL, BR, DB, UF, FL, FR, DF} then FLIPPED else ORIENTED)))"
  using edges_pattern_A [of data] edges_pattern_B [of data] edges_pattern_C [of data]
  by blast

theorem flip_triple_sets_edge_orientations_witness:
  "map (\<lambda>e. orientation (edges (CubeModel_decode (flip_frame 8 9 8)) ! EDGE_val e))
       [UB, UL, UF, UR, BL, FL, FR, BR, DB, DL, DF, DR] =
     [FLIPPED, ORIENTED, ORIENTED, ORIENTED, FLIPPED, ORIENTED, ORIENTED, FLIPPED,
      FLIPPED, ORIENTED, ORIENTED, ORIENTED] \<and>
   map (\<lambda>e. orientation (edges (CubeModel_decode (flip_frame 2 6 2)) ! EDGE_val e))
       [UB, UL, UF, UR, BL, FL, FR, BR, DB, DL, DF, DR] =
     [ORIENTED, ORIENTED, FLIPPED, ORIENTED, ORIENTED, FLIPPED, FLIPPED, ORIENTED,
      ORIENTED, ORIENTED, FLIPPED, ORIENTED] \<and>
   map (\<lambda>e. orientation (edges (CubeModel_decode (flip_frame 0x0A 0x0F 0x0A)) ! EDGE_val e))
       [UB, UL, UF, UR, BL, FL, FR, BR, DB, DL, DF, DR] =
     [FLIPPED, ORIENTED, FLIPPED, ORIENTED, FLIPPED, FLIPPED, FLIPPED, FLIPPED,
      FLIPPED, ORIENTED, FLIPPED, ORIENTED]"
proof -
  have len: "length (flip_frame a b c) = 36" for a b c
    by (simp add: flip_frame_def solved_frame_def)
  have bytes: "flip_frame a b c ! 28 = a \<and> flip_frame a b c ! 29 = b \<and> flip_frame a b c ! 30 = c"
    for a b c
    by (simp add: flip_frame_def solved_frame_def)
  note t = flip_triple_sets_edge_orientations
  from t [OF len, of 8 9 8] bytes [of 8 9 8]
  have a: "\<forall>e. orientation (edges (CubeModel_decode (flip_frame 8 9 8)) ! EDGE_val e) =
                   (if e \<in> {UB, BL, BR, DB} then FLIPPED else ORIENTED)"
    by blast
  from t [OF len, of 2 6 2] bytes [of 2 6 2]
  have b: "\<forall>e. orientation (edges (CubeModel_decode (flip_frame 2 6 2)) ! EDGE_val e) =
                   (if e \<in> {UF, FL, FR, DF} then FLIPPED else ORIENTED)"
    by blast
  from t [OF len, of "0x0A" "0x0F" "0x0A"] bytes [of "0x0A" "0x0F" "0x0A"]
  have c: "\<forall>e. orientation (edges (CubeModel_decode (flip_frame 0x0A 0x0F 0x0A)) ! EDGE_val e) =
                   (if e \<in> {UB, BL, BR, DB, UF, FL, FR, DF} then FLIPPED else ORIENTED)"
    by blast
  show ?thesis by (simp add: a b c)
qed

text \<open>
  C3, as the claim states it: a frame whose flip bytes are an unknown triple is rejected
  with a typed error instead of giving a state with every edge ORIENTED. It fails at the
  solved frame with flip bytes 1 2 3: the constructor returns a state, the very state of
  the solved frame, with all twelve edges ORIENTED.
\<close>

theorem unknown_flip_triple_decodes_without_error:
  "length (flip_frame 1 2 3) = 36 \<and>
   CubeModel_decode (flip_frame 1 2 3) = CubeModel_decode solved_frame \<and>
   map orientation (edges (CubeModel_decode (flip_frame 1 2 3))) = replicate 12 ORIENTED"
  by code_simp

text \<open>
  C3, amended. For a frame of 36 bytes whose flip bytes are none of 8 9 8, 2 6 2 and
  0x0A 0x0F 0x0A (the no-flip value 0 0 0 and every unknown triple alike), the
  constructor raises no error: it returns a well-formed state in which every edge slot
  is ORIENTED.
\<close>

theorem unknown_flip_triple_all_oriented:
  assumes "length data = 36"
    and "\<not> (data ! 28 = 8 \<and> data ! 29 = 9 \<and> data ! 30 = 8)"
    and "\<not> (data ! 28 = 2 \<and> data ! 29 = 6 \<and> data ! 30 = 2)"
    and "\<not> (data ! 28 = 0x0A \<and> data ! 29 = 0x0F \<and> data ! 30 = 0x0A)"
  shows "wf_CubeModel (CubeModel_decode data) \<and>
         (\<forall>e. orientation (edges (CubeModel_decode data) ! EDGE_val e) = ORIENTED)"
  using edges_no_pattern [OF assms(2-)] wf_CubeModel_decode by blast

theorem unknown_flip_triple_all_oriented_witness:
  "wf_CubeModel (CubeModel_decode (flip_frame 1 2 3)) \<and>
   map (\<lambda>e. orientation (edges (CubeModel_decode (flip_frame 1 2 3)) ! EDGE_val e))
       [UB, UL, UF, UR, BL, FL, FR, BR, DB, DL, DF, DR] = replicate 12 ORIENTED"
proof -
  have len: "length (flip_frame 1 2 3) = 36"
    by (simp add: flip_frame_def solved_frame_def)
  have bytes: "flip_frame 1 2 3 ! 28 = 1 \<and> flip_frame 1 2 3 ! 29 = 2 \<and> flip_frame 1 2 3 ! 30 = 3"
    by (simp add: flip_frame_def solved_frame_def)
  have na: "\<not> (flip_frame 1 2 3 ! 28 = 8 \<and> flip_frame 1 2 3 ! 29 = 9 \<and> flip_frame 1 2 3 ! 30 = 8)"
    and nb: "\<not> (flip_frame 1 2 3 ! 28 = 2 \<and> flip_frame 1 2 3 ! 29 = 6 \<and> flip_frame 1 2 3 ! 30 = 2)"
    and nc: "\<not> (flip_frame 1 2 3 ! 28 = 0x0A \<and> flip_frame 1 2 3 ! 29 = 0x0F \<and> flip_frame 1 2 3 ! 30 = 0x0A)"
    using bytes by simp_all
  from unknown_flip_triple_all_oriented [OF len na nb nc]
  show ?thesis by (simp add: eval_nat_numeral)
qed

text \<open>
  C4, evaluated at the solved frame, whose face bytes 32 and 34 are both 5. The
  documented index 5 is Red, the centre of LEFT; the constructor stores the byte cast
  unchanged, which is the enumerator DOWN, the face with the BLUE centre. On a frame
  with face byte 6 (documented: Green) it stores the enumerator NONE.
\<close>

theorem decode_stores_face_byte_uncast:
  "solved_frame ! 32 = 5 \<and> solved_frame ! 34 = 5 \<and>
   spec_face_of_index 5 = Some LEFT \<and>
   getColor (CubeModel_decode solved_frame) LEFT 1 1 = Some RED \<and>
   turnedFace (CubeModel_decode solved_frame) = DOWN \<and>
   lastTurnedFace (CubeModel_decode solved_frame) = DOWN \<and>
   getColor (CubeModel_decode solved_frame) (turnedFace (CubeModel_decode solved_frame)) 1 1
     = Some BLUE \<and>
   spec_face_of_index 6 = Some UP \<and>
   turnedFace (CubeModel_decode (solved_frame[32 := 6])) = NONE"
  by code_simp

subsection \<open>isSolved\<close>

lemma isSolved_from_step:
  "i < 12 \<Longrightarrow>
     isSolved_from s i =
       ((unat (index (edges s ! i)) = i \<and> orientation (edges s ! i) = ORIENTED \<and>
         (i < 6 \<longrightarrow> unat (index (corners s ! i)) = i \<and> orientation (corners s ! i) = ORIENTED))
        \<and> isSolved_from s (Suc i))"
  by (subst isSolved_from.simps) (simp, blast)

lemma isSolved_from_done: "\<not> i < 12 \<Longrightarrow> isSolved_from s i"
  by (subst isSolved_from.simps) simp

lemma isSolved_from_iff:
  "isSolved_from s k \<longleftrightarrow>
     (\<forall>i. k \<le> i \<and> i < 12 \<longrightarrow>
        unat (index (edges s ! i)) = i \<and> orientation (edges s ! i) = ORIENTED \<and>
        (i < 6 \<longrightarrow> unat (index (corners s ! i)) = i \<and> orientation (corners s ! i) = ORIENTED))"
proof (induction s k rule: isSolved_from.induct)
  case (1 s i)
  define ok where "ok j \<longleftrightarrow>
        unat (index (edges s ! j)) = j \<and> orientation (edges s ! j) = ORIENTED \<and>
        (j < 6 \<longrightarrow> unat (index (corners s ! j)) = j \<and> orientation (corners s ! j) = ORIENTED)"
    for j
  have "isSolved_from s i \<longleftrightarrow> (\<forall>j. i \<le> j \<and> j < 12 \<longrightarrow> ok j)"
  proof (cases "i < 12")
    case False
    then have "\<not> (i \<le> j \<and> j < 12)" for j by simp
    then have "\<forall>j. i \<le> j \<and> j < 12 \<longrightarrow> ok j" by blast
    moreover from False have "isSolved_from s i" by (rule isSolved_from_done)
    ultimately show ?thesis by blast
  next
    case True
    have step: "isSolved_from s i = (ok i \<and> isSolved_from s (Suc i))"
      unfolding ok_def by (rule isSolved_from_step [OF True])
    note split = range_split [OF True, of ok]
    show ?thesis
    proof (cases "ok i")
      case False
      with step split show ?thesis by blast
    next
      case yes: True
      then have "isSolved_from s (Suc i) \<longleftrightarrow>
          (\<forall>j. Suc i \<le> j \<and> j < 12 \<longrightarrow>
             unat (index (edges s ! j)) = j \<and> orientation (edges s ! j) = ORIENTED \<and>
             (j < 6 \<longrightarrow> unat (index (corners s ! j)) = j \<and> orientation (corners s ! j) = ORIENTED))"
        using True by (intro "1.IH") (simp_all add: ok_def)
      then have "isSolved_from s (Suc i) \<longleftrightarrow> (\<forall>j. Suc i \<le> j \<and> j < 12 \<longrightarrow> ok j)"
        unfolding ok_def .
      with step split yes show ?thesis by blast
    qed
  qed
  then show ?case unfolding ok_def .
qed

text \<open>
  C6. \<open>isSolved\<close> is true exactly when each of the 12 edge slots holds the piece of its
  own position with orientation ORIENTED and each of the corner slots 0 to 5 does so too.
  Corner slots 6 and 7 are not read. So it is false as soon as one index or orientation
  in the checked range differs.
\<close>

theorem isSolved_iff_checked_slots_home:
  "isSolved s \<longleftrightarrow>
     (\<forall>i<12. unat (index (edges s ! i)) = i \<and> orientation (edges s ! i) = ORIENTED) \<and>
     (\<forall>i<6. unat (index (corners s ! i)) = i \<and> orientation (corners s ! i) = ORIENTED)"
proof -
  define A where "A i \<longleftrightarrow> unat (index (edges s ! i)) = i \<and> orientation (edges s ! i) = ORIENTED" for i
  define B where "B i \<longleftrightarrow> unat (index (corners s ! i)) = i \<and> orientation (corners s ! i) = ORIENTED" for i
  have "isSolved s \<longleftrightarrow> (\<forall>i. 0 \<le> i \<and> i < 12 \<longrightarrow> A i \<and> (i < 6 \<longrightarrow> B i))"
    unfolding isSolved_def A_def B_def
    using isSolved_from_iff [of s 0] by (simp only: conj_assoc)
  also have "\<dots> \<longleftrightarrow> (\<forall>i<12. A i) \<and> (\<forall>i<6. B i)"
  proof
    assume h: "\<forall>i. 0 \<le> i \<and> i < 12 \<longrightarrow> A i \<and> (i < 6 \<longrightarrow> B i)"
    have "A i" if "i < 12" for i using h that by blast
    moreover have "B i" if "i < 6" for i
    proof -
      from that have "0 \<le> i \<and> i < 12" by simp
      with h that show ?thesis by blast
    qed
    ultimately show "(\<forall>i<12. A i) \<and> (\<forall>i<6. B i)" by blast
  next
    assume h: "(\<forall>i<12. A i) \<and> (\<forall>i<6. B i)"
    then show "\<forall>i. 0 \<le> i \<and> i < 12 \<longrightarrow> A i \<and> (i < 6 \<longrightarrow> B i)" by blast
  qed
  finally show ?thesis unfolding A_def B_def .
qed

theorem isSolved_iff_checked_slots_home_witness:
  "isSolved (CubeModel_decode twisted_DRF_frame) \<and>
   orientation (corners (CubeModel_decode twisted_DRF_frame) ! 6) = ROTATED_TWICE \<and>
   \<not> isSolved (CubeModel_decode twisted_ULB_DRF_frame) \<and>
   orientation (corners (CubeModel_decode twisted_ULB_DRF_frame) ! 0) = ROTATED_TWICE"
proof -
  let ?s = "CubeModel_decode twisted_DRF_frame"
  let ?t = "CubeModel_decode twisted_ULB_DRF_frame"
  have e: "\<forall>i<12. unat (index (edges ?s ! i)) = i \<and> orientation (edges ?s ! i) = ORIENTED"
    unfolding all_less_12 by code_simp
  have c: "\<forall>i<6. unat (index (corners ?s ! i)) = i \<and> orientation (corners ?s ! i) = ORIENTED"
    unfolding all_less_6 by code_simp
  have s: "isSolved ?s"
    using isSolved_iff_checked_slots_home [of ?s] e c by blast
  have "orientation (corners ?t ! 0) \<noteq> ORIENTED" by code_simp
  then have "\<not> (\<forall>i<6. unat (index (corners ?t ! i)) = i \<and> orientation (corners ?t ! i) = ORIENTED)"
    by (simp add: all_less_6)
  then have t: "\<not> isSolved ?t"
    using isSolved_iff_checked_slots_home [of ?t] by blast
  have o: "orientation (corners ?s ! 6) = ROTATED_TWICE" "orientation (corners ?t ! 0) = ROTATED_TWICE"
    by code_simp+
  from s t o show ?thesis by blast
qed

subsection \<open>Edge and corner colours\<close>

text \<open>
  C5. In a state with arrays of the class's sizes, let edge slot \<open>S\<close> hold a piece whose
  stored index is the edge identity \<open>P\<close>. Then \<open>getEdgeColors\<close> of \<open>S\<close> is the colour pair
  of \<open>P\<close> (not of \<open>S\<close>) in its fixed order when the slot is ORIENTED, and the reverse of
  that pair when the slot is FLIPPED.
\<close>

theorem getEdgeColors_identity_pair:
  assumes "wf_CubeModel s"
    and "EDGE_of_u8 (index (edges s ! EDGE_val S)) = Some P"
  shows "(orientation (edges s ! EDGE_val S) = ORIENTED \<longrightarrow>
            getEdgeColors s S = [Some (fst (edge_pair P)), Some (snd (edge_pair P))]) \<and>
         (orientation (edges s ! EDGE_val S) = FLIPPED \<longrightarrow>
            getEdgeColors s S = rev [Some (fst (edge_pair P)), Some (snd (edge_pair P))])"
  using assms by (simp add: getEdgeColors_def DIR_defs)

theorem getEdgeColors_identity_pair_witness:
  "getEdgeColors (CubeModel_decode swapped_edges_frame) UB = [Some RED, Some YELLOW] \<and>
   getEdgeColors (CubeModel_decode swapped_edges_frame) UL = [Some GREEN, Some RED]"
proof -
  let ?s = "CubeModel_decode swapped_edges_frame"
  have wf: "wf_CubeModel ?s" by code_simp
  have p: "EDGE_of_u8 (index (edges ?s ! EDGE_val UB)) = Some BL"
      "EDGE_of_u8 (index (edges ?s ! EDGE_val UL)) = Some UL"
    by code_simp+
  have o: "orientation (edges ?s ! EDGE_val UB) = FLIPPED"
      "orientation (edges ?s ! EDGE_val UL) = ORIENTED"
    by code_simp+
  from getEdgeColors_identity_pair [OF wf p(1)] getEdgeColors_identity_pair [OF wf p(2)] o
  show ?thesis by simp
qed

text \<open>
  C8. Let corner slot \<open>S\<close> hold piece \<open>P\<close> with orientation ROTATED_TWICE, the sum of the
  stored index and the slot number being even. If \<open>isSolved\<close> is true the colours of \<open>P\<close>
  are written at positions (1, 2, 0); if it is false the positions are (2, 1, 0), the
  first two exchanged.
\<close>

theorem rotated_twice_even_sum_positions:
  assumes "wf_CubeModel s"
    and "orientation (corners s ! CORNER_val S) = ROTATED_TWICE"
    and "(unat (index (corners s ! CORNER_val S)) + CORNER_val S) mod 2 = 0"
    and "CORNER_of_u8 (index (corners s ! CORNER_val S)) = Some P"
    and "corner_triple P = (c0, c1, c2)"
  shows "(isSolved s \<longrightarrow> corner_positions s S = (1, 2, 0) \<and>
                          getCornerColors s S = [Some c2, Some c0, Some c1]) \<and>
         (\<not> isSolved s \<longrightarrow> corner_positions s S = (2, 1, 0) \<and>
                            getCornerColors s S = [Some c2, Some c1, Some c0])"
proof -
  have pos: "corner_positions s S = (if \<not> isSolved s then (2, 1, 0) else (1, 2, 0))"
    using assms(2,3) by (simp add: corner_positions_def DIR_defs)
  show ?thesis
    using assms(4,5) by (simp add: getCornerColors_def pos)
qed

theorem rotated_twice_even_sum_positions_witness:
  "isSolved (CubeModel_decode twisted_DRF_frame) \<and>
   corner_positions (CubeModel_decode twisted_DRF_frame) DRF = (1, 2, 0) \<and>
   getCornerColors (CubeModel_decode twisted_DRF_frame) DRF = [Some WHITE, Some BLUE, Some ORANGE] \<and>
   \<not> isSolved (CubeModel_decode twisted_ULB_DRF_frame) \<and>
   corner_positions (CubeModel_decode twisted_ULB_DRF_frame) DRF = (2, 1, 0) \<and>
   getCornerColors (CubeModel_decode twisted_ULB_DRF_frame) DRF = [Some WHITE, Some ORANGE, Some BLUE]"
proof -
  let ?s = "CubeModel_decode twisted_DRF_frame"
  let ?t = "CubeModel_decode twisted_ULB_DRF_frame"
  have wf: "wf_CubeModel ?s" "wf_CubeModel ?t" by code_simp+
  have o: "orientation (corners ?s ! CORNER_val DRF) = ROTATED_TWICE"
      "orientation (corners ?t ! CORNER_val DRF) = ROTATED_TWICE"
    by code_simp+
  have e: "(unat (index (corners ?s ! CORNER_val DRF)) + CORNER_val DRF) mod 2 = 0"
      "(unat (index (corners ?t ! CORNER_val DRF)) + CORNER_val DRF) mod 2 = 0"
    by code_simp+
  have p: "CORNER_of_u8 (index (corners ?s ! CORNER_val DRF)) = Some DRF"
      "CORNER_of_u8 (index (corners ?t ! CORNER_val DRF)) = Some DRF"
    by code_simp+
  have c: "corner_triple DRF = (BLUE, ORANGE, WHITE)" by simp
  have s: "isSolved ?s" "\<not> isSolved ?t" by code_simp+
  from rotated_twice_even_sum_positions [OF wf(1) o(1) e(1) p(1) c]
       rotated_twice_even_sum_positions [OF wf(2) o(2) e(2) p(2) c] s
  show ?thesis by simp
qed

subsection \<open>The grid mapping\<close>

text \<open>
  C9. On the RIGHT face the top-left cell (0,0) and the top-right cell (0,2) are both
  colour 1 of the corner query for slot URF, so they are equal in every state.
\<close>

theorem right_face_row0_same_corner_cell:
  "getColor s RIGHT 0 0 = getCornerColors s URF ! 1 \<and>
   getColor s RIGHT 0 2 = getCornerColors s URF ! 1 \<and>
   getColor s RIGHT 0 0 = getColor s RIGHT 0 2"
  by (simp add: getColor_def FACE_defs)

text \<open>
  C10. For a face value that is none of the six real faces and a cell other than the
  centre (1,1), \<open>getColor\<close> takes the default branch and returns WHITE, whatever the
  state holds.
\<close>

theorem getColor_other_face_white:
  assumes "\<not> (row = 1 \<and> col = 1)"
    and "face \<noteq> UP" "face \<noteq> LEFT" "face \<noteq> FRONT" "face \<noteq> RIGHT" "face \<noteq> BACK" "face \<noteq> DOWN"
  shows "getColor s face row col = Some WHITE"
proof -
  from assms(1) have c: "(row = 1 \<and> col = 1) = False" by simp
  show ?thesis unfolding getColor_def c using assms(2-) by simp
qed

theorem getColor_other_face_white_witness:
  "getColor CubeModel_default NONE 0 2 = Some WHITE \<and>
   getColor (CubeModel_decode solved_frame) 9 2 1 = Some WHITE"
proof -
  have a: "\<not> ((0::u8) = 1 \<and> (2::u8) = 1)" by simp
  have b: "\<not> ((2::u8) = 1 \<and> (1::u8) = 1)" by simp
  have n: "NONE \<noteq> UP" "NONE \<noteq> LEFT" "NONE \<noteq> FRONT" "NONE \<noteq> RIGHT" "NONE \<noteq> BACK" "NONE \<noteq> DOWN"
    by (simp_all add: FACE_defs)
  have m: "(9::u8) \<noteq> UP" "(9::u8) \<noteq> LEFT" "(9::u8) \<noteq> FRONT" "(9::u8) \<noteq> RIGHT"
      "(9::u8) \<noteq> BACK" "(9::u8) \<noteq> DOWN"
    by (simp_all add: FACE_defs)
  from getColor_other_face_white [OF a n] getColor_other_face_white [OF b m]
  show ?thesis by simp
qed

end
